theory Spec2Isabelle
  imports Main
begin

section \<open>Agent detection middleware (src/middleware.ts)\<close>

text \<open>
  The middleware classifies a request from its headers. Header values are byte strings, so
  a header value is a \<open>string\<close>; JavaScript numbers only ever hold small integers here and
  are modelled as \<open>int\<close>. A request is seen through \<open>request.headers.get\<close> alone: a lookup
  from the (lower-case) header name to its value, \<open>None\<close> standing for \<open>null\<close>.
\<close>

subsection \<open>Strings and patterns\<close>

text \<open>
  \<open>s.startsWith(sub)\<close> and \<open>s.includes(sub)\<close> (here \<open>str_includes\<close>): the case-sensitive
  prefix and substring tests.
\<close>

fun startsWith :: "string \<Rightarrow> string \<Rightarrow> bool" where
  "startsWith s [] = True"
| "startsWith [] (c # cs) = False"
| "startsWith (x # xs) (c # cs) = (x = c \<and> startsWith xs cs)"

fun str_includes :: "string \<Rightarrow> string \<Rightarrow> bool" where
  "str_includes [] sub = (sub = [])"
| "str_includes (x # xs) sub = (startsWith (x # xs) sub \<or> str_includes xs sub)"

text \<open>
  The case folding of a regular expression with the \<open>i\<close> flag (and no \<open>u\<close> flag): a
  character is compared through its upper-case form, and a character outside ASCII is never
  folded onto an ASCII one. On byte strings only \<open>a\<close>..\<open>z\<close> change.
\<close>

definition canonicalize :: "char \<Rightarrow> char" where
  "canonicalize c =
     (case map_of (zip ''abcdefghijklmnopqrstuvwxyz'' ''ABCDEFGHIJKLMNOPQRSTUVWXYZ'') c of
        None \<Rightarrow> c
      | Some u \<Rightarrow> u)"

text \<open>
  The patterns of the table are alternations of literal texts, all with the \<open>i\<close> flag:
  \<open>Lit\<close> is a literal, \<open>Alt\<close> is \<open>|\<close>. \<open>regexp_test p s\<close> is \<open>p.test(s)\<close>: the pattern
  is not anchored, so a literal matches when it occurs anywhere in \<open>s\<close>, up to case.
\<close>

datatype regexp = Lit string | Alt regexp regexp

fun regexp_test :: "regexp \<Rightarrow> string \<Rightarrow> bool" where
  "regexp_test (Lit l) s = str_includes (map canonicalize s) (map canonicalize l)"
| "regexp_test (Alt p q) s = (regexp_test p s \<or> regexp_test q s)"

subsection \<open>Configuration\<close>

text \<open>\<open>KNOWN_AGENTS\<close>, in the order \<open>Object.entries\<close> enumerates it (insertion order).\<close>

definition KNOWN_AGENTS :: "(string \<times> regexp) list" where
  "KNOWN_AGENTS =
    [(''GPTBot'', Lit ''GPTBot''),
     (''ChatGPT-User'', Lit ''ChatGPT-User''),
     (''OAI-SearchBot'', Lit ''OAI-SearchBot''),
     (''ClaudeBot'', Alt (Lit ''ClaudeBot'') (Lit ''Claude-Web'')),
     (''Google-Extended'', Lit ''Google-Extended''),
     (''Gemini-Deep-Research'', Lit ''Gemini-Deep-Research''),
     (''GoogleVertexBot'', Lit ''Google-CloudVertexBot''),
     (''GeminiBot'', Alt (Lit ''GeminiiOS'') (Lit ''Gemini/'')),
     (''PerplexityBot'', Lit ''PerplexityBot''),
     (''ByteSpider'', Lit ''Bytespider''),
     (''FacebookBot'', Lit ''FacebookBot''),
     (''Meta-ExternalAgent'', Lit ''Meta-ExternalAgent''),
     (''Applebot'', Lit ''Applebot''),
     (''Amazonbot'', Lit ''Amazonbot''),
     (''YouBot'', Lit ''YouBot''),
     (''DuckAssistant'', Alt (Lit ''DuckAssistant'') (Lit ''DuckAssistBot''))]"

text \<open>The constants of \<open>CONFIDENCE\<close>.\<close>

definition SERVER_UA :: int where "SERVER_UA = 95"
definition PATTERN :: int where "PATTERN = 40"
definition EXTRA_LAYER_BONUS :: int where "EXTRA_LAYER_BONUS = 5"
definition AGENT_THRESHOLD :: int where "AGENT_THRESHOLD = 50"

subsection \<open>Requests and results\<close>

record request =
  headers :: "string \<rightharpoonup> string"

text \<open>\<open>request.headers.get(name)\<close>.\<close>

definition headers_get :: "request \<Rightarrow> string \<Rightarrow> string option" where
  "headers_get r name = headers r name"

text \<open>\<open>!v\<close> for a value that is \<open>null\<close> or a string: true for \<open>null\<close> and for the empty string.\<close>

fun falsy :: "string option \<Rightarrow> bool" where
  "falsy None = True"
| "falsy (Some s) = (s = [])"

text \<open>\<open>v ?? ''\<close>.\<close>

fun orEmpty :: "string option \<Rightarrow> string" where
  "orEmpty None = []"
| "orEmpty (Some s) = s"

record layer =
  name :: string
  score :: int

record DetectionResult =
  isAgent :: bool
  agentName :: string
  confidence :: int
  layers :: "string list"

subsection \<open>Layer 3: request pattern analysis\<close>

text \<open>
  \<open>analyzePatterns\<close>: the score starts at 0 and each check adds its weight. The two
  \<open>accept\<close> checks are the branches of one \<open>if\<close> / \<open>else if\<close>.
\<close>

definition analyzePatterns :: "request \<Rightarrow> int" where
  "analyzePatterns r =
    (let score = 0;
         score = (if falsy (headers_get r ''referer'') then score + 10 else score);
         score = (if falsy (headers_get r ''cookie'') then score + 10 else score);
         score = (if falsy (headers_get r ''accept-language'') then score + 15 else score);
         accept = orEmpty (headers_get r ''accept'');
         score = (if accept = [] \<or> accept = ''*/*'' then score + 10
                  else if \<not> str_includes accept ''text/html'' then score + 10
                  else score);
         score = (if falsy (headers_get r ''sec-fetch-mode'') then score + 10 else score);
         score = (if falsy (headers_get r ''sec-fetch-site'') then score + 5 else score)
     in score)"

subsection \<open>The multi-layer detector\<close>

text \<open>
  Layer 1, the loop over \<open>Object.entries(KNOWN_AGENTS)\<close>: the state is the layer list and
  \<open>agentName\<close>; the first entry whose pattern matches pushes the \<open>ua\<close> layer, sets the name
  and leaves the loop.
\<close>

fun uaLoop :: "(string \<times> regexp) list \<Rightarrow> string \<Rightarrow> layer list \<times> string \<Rightarrow> layer list \<times> string" where
  "uaLoop [] ua st = st"
| "uaLoop ((nm, pattern) # rest) ua (ls, agent) =
     (if regexp_test pattern ua
      then (ls @ [\<lparr>name = ''ua'', score = SERVER_UA\<rparr>], nm)
      else uaLoop rest ua (ls, agent))"

text \<open>
  The body of \<open>detectAgent\<close> after the two inputs it reads from the request: the
  identification string \<open>ua\<close> and the value \<open>patternScore\<close> of \<open>analyzePatterns(request)\<close>.
  \<open>Math.max\<close> is only reached on a non-empty layer list.
\<close>

definition detectAgentFrom :: "string \<Rightarrow> int \<Rightarrow> DetectionResult" where
  "detectAgentFrom ua patternScore =
    (let (ls, agent) = uaLoop KNOWN_AGENTS ua ([], []);
         ls = (if patternScore \<ge> PATTERN
               then ls @ [\<lparr>name = ''pattern'', score = patternScore\<rparr>] else ls)
     in case ls of
          [] \<Rightarrow> \<lparr>isAgent = False, agentName = [], confidence = 0, layers = []\<rparr>
        | l # rest \<Rightarrow>
            let maxScore = foldl max (score l) (map score rest);
                extraLayers = int (length ls) - 1;
                finalConfidence = min 100 (maxScore + extraLayers * EXTRA_LAYER_BONUS)
            in \<lparr>isAgent = (finalConfidence \<ge> AGENT_THRESHOLD),
                agentName = (if agent \<noteq> [] then agent else ''unknown-pattern''),
                confidence = finalConfidence,
                layers = map name ls\<rparr>)"

definition detectAgent :: "request \<Rightarrow> DetectionResult" where
  "detectAgent r = detectAgentFrom (orEmpty (headers_get r ''user-agent'')) (analyzePatterns r)"

subsection \<open>The single-layer detector\<close>

text \<open>The older variant of \<open>detectAgent\<close>: it takes the identification string.\<close>

record AgentResult =
  isAgent1 :: bool
  agentName1 :: string
  confidence1 :: int

fun detectAgentUA_loop :: "(string \<times> regexp) list \<Rightarrow> string \<Rightarrow> AgentResult" where
  "detectAgentUA_loop [] ua = \<lparr>isAgent1 = False, agentName1 = [], confidence1 = 0\<rparr>"
| "detectAgentUA_loop ((nm, pattern) # rest) ua =
     (if regexp_test pattern ua
      then \<lparr>isAgent1 = True, agentName1 = nm, confidence1 = 95\<rparr>
      else detectAgentUA_loop rest ua)"

definition detectAgentUA :: "string \<Rightarrow> AgentResult" where
  "detectAgentUA ua = detectAgentUA_loop KNOWN_AGENTS ua"

subsection \<open>Notions used to state the properties\<close>

text \<open>The identification string of a request: \<open>request.headers.get('user-agent') ?? ''\<close>.\<close>

definition userAgent :: "request \<Rightarrow> string" where
  "userAgent r = orEmpty (headers_get r ''user-agent'')"

text \<open>The identification string matches at least one entry of the table.\<close>

definition signatureMatches :: "string \<Rightarrow> bool" where
  "signatureMatches ua = list_ex (\<lambda>(nm, pattern). regexp_test pattern ua) KNOWN_AGENTS"

text \<open>\<open>r\<close> with the header \<open>h\<close> set to \<open>v\<close>.\<close>

definition withHeader :: "request \<Rightarrow> string \<Rightarrow> string \<Rightarrow> request" where
  "withHeader r h v = r\<lparr>headers := (headers r)(h \<mapsto> v)\<rparr>"

text \<open>The projection of a result of the multi-layer detector onto the fields of the older one.\<close>

definition toAgentResult :: "DetectionResult \<Rightarrow> AgentResult" where
  "toAgentResult d = \<lparr>isAgent1 = isAgent d, agentName1 = agentName d, confidence1 = confidence d\<rparr>"

subsection \<open>Example requests\<close>

text \<open>A known crawler that sends no other header.\<close>

definition requestA :: request where
  "requestA = \<lparr>headers = [''user-agent'' \<mapsto> ''GPTBot/1.0'']\<rparr>"

text \<open>An unknown client with a wildcard \<open>accept\<close> and nothing else.\<close>

definition requestB :: request where
  "requestB = \<lparr>headers = [''user-agent'' \<mapsto> ''curl/8.0'', ''accept'' \<mapsto> ''*/*'']\<rparr>"

text \<open>The six headers a browser sends.\<close>

definition browserHeaders :: "string \<rightharpoonup> string" where
  "browserHeaders =
     [''referer'' \<mapsto> ''https://example.com/'',
      ''cookie'' \<mapsto> ''sid=1'',
      ''accept-language'' \<mapsto> ''en-US'',
      ''accept'' \<mapsto> ''text/html,application/xhtml+xml'',
      ''sec-fetch-mode'' \<mapsto> ''navigate'',
      ''sec-fetch-site'' \<mapsto> ''same-origin'']"

definition requestC :: request where
  "requestC = \<lparr>headers = browserHeaders(''user-agent'' \<mapsto> ''Mozilla/5.0'')\<rparr>"

definition requestD :: request where
  "requestD = \<lparr>headers = browserHeaders(''user-agent'' \<mapsto> ''ClaudeBot/1.0'')\<rparr>"

text \<open>An identification string that two entries of the table match: the first and the fourth.\<close>

definition requestTwo :: request where
  "requestTwo = \<lparr>headers = [''user-agent'' \<mapsto> ''claude-web gptbot'']\<rparr>"

section \<open>Properties\<close>

subsection \<open>The string tests and the table loop\<close>

lemma startsWith_iff: "startsWith s sub \<longleftrightarrow> (\<exists>ss. s = sub @ ss)"
  by (induction s sub rule: startsWith.induct) auto

lemma str_includes_iff: "str_includes s sub \<longleftrightarrow> (\<exists>ps ss. s = ps @ sub @ ss)"
proof (induction s)
  case Nil
  show ?case by auto
next
  case (Cons x xs)
  have "(\<exists>ps ss. x # xs = ps @ sub @ ss) \<longleftrightarrow>
        (\<exists>ss. x # xs = sub @ ss) \<or> (\<exists>ps ss. xs = ps @ sub @ ss)"
  proof
    assume "\<exists>ps ss. x # xs = ps @ sub @ ss"
    then obtain ps ss where e: "x # xs = ps @ sub @ ss" by blast
    show "(\<exists>ss. x # xs = sub @ ss) \<or> (\<exists>ps ss. xs = ps @ sub @ ss)"
    proof (cases ps)
      case Nil
      with e show ?thesis by auto
    next
      case (Cons p ps')
      with e have "xs = ps' @ sub @ ss" by simp
      then show ?thesis by blast
    qed
  next
    assume "(\<exists>ss. x # xs = sub @ ss) \<or> (\<exists>ps ss. xs = ps @ sub @ ss)"
    then show "\<exists>ps ss. x # xs = ps @ sub @ ss"
    proof
      assume "\<exists>ss. x # xs = sub @ ss"
      then obtain ss where "x # xs = [] @ sub @ ss" by auto
      then show ?thesis by blast
    next
      assume "\<exists>ps ss. xs = ps @ sub @ ss"
      then obtain ps ss where "x # xs = (x # ps) @ sub @ ss" by auto
      then show ?thesis by blast
    qed
  qed
  with Cons show ?case by (simp add: startsWith_iff)
qed

lemma analyzePatterns_bounds: "0 \<le> analyzePatterns r \<and> analyzePatterns r \<le> 60"
  by (simp add: analyzePatterns_def Let_def)

lemma uaLoop_no_match:
  "\<forall>e\<in>set tbl. \<not> regexp_test (snd e) ua \<Longrightarrow> uaLoop tbl ua st = st"
  by (induction tbl ua st rule: uaLoop.induct) auto

lemma uaLoop_first_match:
  "\<exists>e\<in>set tbl. regexp_test (snd e) ua \<Longrightarrow>
   \<exists>i<length tbl. regexp_test (snd (tbl ! i)) ua \<and> (\<forall>j<i. \<not> regexp_test (snd (tbl ! j)) ua) \<and>
      uaLoop tbl ua (ls, agent) = (ls @ [\<lparr>name = ''ua'', score = SERVER_UA\<rparr>], fst (tbl ! i))"
proof (induction tbl)
  case Nil
  then show ?case by simp
next
  case (Cons e tbl)
  obtain nm pattern where e: "e = (nm, pattern)" by (cases e)
  show ?case
  proof (cases "regexp_test pattern ua")
    case True
    with e have "regexp_test (snd ((e # tbl) ! 0)) ua \<and>
        (\<forall>j<0. \<not> regexp_test (snd ((e # tbl) ! j)) ua) \<and>
        uaLoop (e # tbl) ua (ls, agent) =
          (ls @ [\<lparr>name = ''ua'', score = SERVER_UA\<rparr>], fst ((e # tbl) ! 0))"
      by simp
    then show ?thesis by blast
  next
    case False
    with Cons.prems e have "\<exists>e\<in>set tbl. regexp_test (snd e) ua" by auto
    from Cons.IH [OF this] obtain i where i: "i < length tbl"
      "regexp_test (snd (tbl ! i)) ua" "\<forall>j<i. \<not> regexp_test (snd (tbl ! j)) ua"
      "uaLoop tbl ua (ls, agent) = (ls @ [\<lparr>name = ''ua'', score = SERVER_UA\<rparr>], fst (tbl ! i))"
      by blast
    have "\<forall>j<Suc i. \<not> regexp_test (snd ((e # tbl) ! j)) ua"
    proof (intro allI impI)
      fix j assume "j < Suc i"
      then show "\<not> regexp_test (snd ((e # tbl) ! j)) ua"
        using False e i(3) by (cases j) auto
    qed
    with i False e have "Suc i < length (e # tbl) \<and> regexp_test (snd ((e # tbl) ! Suc i)) ua \<and>
        (\<forall>j<Suc i. \<not> regexp_test (snd ((e # tbl) ! j)) ua) \<and>
        uaLoop (e # tbl) ua (ls, agent) =
          (ls @ [\<lparr>name = ''ua'', score = SERVER_UA\<rparr>], fst ((e # tbl) ! Suc i))"
      by simp
    then show ?thesis by blast
  qed
qed

lemma signatureMatches_iff:
  "signatureMatches ua \<longleftrightarrow> (\<exists>e\<in>set KNOWN_AGENTS. regexp_test (snd e) ua)"
  by (simp add: signatureMatches_def list_ex_iff case_prod_unfold)

lemma KNOWN_AGENTS_names: "\<forall>e\<in>set KNOWN_AGENTS. fst e \<noteq> []"
  by (simp add: KNOWN_AGENTS_def)

lemma detectAgentFrom_no_match_low:
  assumes "\<not> signatureMatches ua" "patternScore < 40"
  shows "detectAgentFrom ua patternScore =
           \<lparr>isAgent = False, agentName = [], confidence = 0, layers = []\<rparr>"
proof -
  from assms(1) have "uaLoop KNOWN_AGENTS ua ([], []) = ([], [])"
    by (intro uaLoop_no_match) (simp add: signatureMatches_iff)
  with assms(2) show ?thesis
    by (simp add: detectAgentFrom_def PATTERN_def)
qed

lemma detectAgentFrom_no_match_high:
  assumes "\<not> signatureMatches ua" "40 \<le> patternScore"
  shows "detectAgentFrom ua patternScore =
           \<lparr>isAgent = (50 \<le> min 100 patternScore), agentName = ''unknown-pattern'',
            confidence = min 100 patternScore, layers = [''pattern'']\<rparr>"
proof -
  from assms(1) have "uaLoop KNOWN_AGENTS ua ([], []) = ([], [])"
    by (intro uaLoop_no_match) (simp add: signatureMatches_iff)
  with assms(2) show ?thesis
    by (simp add: detectAgentFrom_def PATTERN_def AGENT_THRESHOLD_def)
qed

lemma detectAgentFrom_match:
  assumes "signatureMatches ua"
  shows "\<exists>i<length KNOWN_AGENTS. regexp_test (snd (KNOWN_AGENTS ! i)) ua \<and>
           (\<forall>j<i. \<not> regexp_test (snd (KNOWN_AGENTS ! j)) ua) \<and>
           detectAgentFrom ua patternScore =
             (if 40 \<le> patternScore
              then \<lparr>isAgent = True,
                    agentName = fst (KNOWN_AGENTS ! i),
                    confidence = min 100 (max 95 patternScore + 5),
                    layers = [''ua'', ''pattern'']\<rparr>
              else \<lparr>isAgent = True, agentName = fst (KNOWN_AGENTS ! i),
                    confidence = 95, layers = [''ua'']\<rparr>)"
proof -
  from assms have "\<exists>e\<in>set KNOWN_AGENTS. regexp_test (snd e) ua"
    by (simp add: signatureMatches_iff)
  from uaLoop_first_match [OF this, of "[]" "[]"] obtain i where i: "i < length KNOWN_AGENTS"
    "regexp_test (snd (KNOWN_AGENTS ! i)) ua" "\<forall>j<i. \<not> regexp_test (snd (KNOWN_AGENTS ! j)) ua"
    "uaLoop KNOWN_AGENTS ua ([], []) = ([\<lparr>name = ''ua'', score = SERVER_UA\<rparr>], fst (KNOWN_AGENTS ! i))"
    by auto
  from i(1) have "KNOWN_AGENTS ! i \<in> set KNOWN_AGENTS" by simp
  with KNOWN_AGENTS_names have ne: "fst (KNOWN_AGENTS ! i) \<noteq> []" by blast
  from i(4) ne have "detectAgentFrom ua patternScore =
             (if 40 \<le> patternScore
              then \<lparr>isAgent = True,
                    agentName = fst (KNOWN_AGENTS ! i),
                    confidence = min 100 (max 95 patternScore + 5),
                    layers = [''ua'', ''pattern'']\<rparr>
              else \<lparr>isAgent = True, agentName = fst (KNOWN_AGENTS ! i),
                    confidence = 95, layers = [''ua'']\<rparr>)"
    by (simp add: detectAgentFrom_def PATTERN_def AGENT_THRESHOLD_def SERVER_UA_def
        EXTRA_LAYER_BONUS_def max_def)
  with i(1-3) show ?thesis by blast
qed

subsection \<open>The detector by cases\<close>

lemma detectAgentFrom_confidence:
  "confidence (detectAgentFrom ua patternScore) =
     (if signatureMatches ua then (if 40 \<le> patternScore then min 100 (max 95 patternScore + 5) else 95)
      else if 40 \<le> patternScore then min 100 patternScore else 0)"
proof (cases "signatureMatches ua")
  case True
  from detectAgentFrom_match [OF this, of patternScore] show ?thesis
    using True by auto
next
  case False
  then show ?thesis
    using detectAgentFrom_no_match_low [of ua patternScore]
      detectAgentFrom_no_match_high [of ua patternScore]
    by (cases "40 \<le> patternScore") simp_all
qed

lemma detectAgentFrom_isAgent:
  "isAgent (detectAgentFrom ua patternScore) =
     (signatureMatches ua \<or> 50 \<le> patternScore)"
proof (cases "signatureMatches ua")
  case True
  from detectAgentFrom_match [OF this, of patternScore] show ?thesis
    using True by auto
next
  case False
  then show ?thesis
    using detectAgentFrom_no_match_low [of ua patternScore]
      detectAgentFrom_no_match_high [of ua patternScore]
    by (cases "40 \<le> patternScore") auto
qed

lemma detectAgentUA_loop_no_match:
  "\<forall>e\<in>set tbl. \<not> regexp_test (snd e) ua \<Longrightarrow>
   detectAgentUA_loop tbl ua = \<lparr>isAgent1 = False, agentName1 = [], confidence1 = 0\<rparr>"
  by (induction tbl ua rule: detectAgentUA_loop.induct) auto

lemma detectAgentUA_loop_uaLoop:
  "\<exists>e\<in>set tbl. regexp_test (snd e) ua \<Longrightarrow>
   detectAgentUA_loop tbl ua =
     \<lparr>isAgent1 = True, agentName1 = snd (uaLoop tbl ua (ls, agent)), confidence1 = 95\<rparr>"
  by (induction tbl ua rule: detectAgentUA_loop.induct) auto

lemma detectAgentUA_degenerate: "detectAgentUA ua = toAgentResult (detectAgentFrom ua 0)"
proof (cases "signatureMatches ua")
  case True
  then have ex: "\<exists>e\<in>set KNOWN_AGENTS. regexp_test (snd e) ua"
    by (simp add: signatureMatches_iff)
  from uaLoop_first_match [OF ex, of "[]" "[]"] obtain i where i: "i < length KNOWN_AGENTS"
    "uaLoop KNOWN_AGENTS ua ([], []) = ([\<lparr>name = ''ua'', score = SERVER_UA\<rparr>], fst (KNOWN_AGENTS ! i))"
    by auto
  from i(1) have "KNOWN_AGENTS ! i \<in> set KNOWN_AGENTS" by simp
  with KNOWN_AGENTS_names have ne: "fst (KNOWN_AGENTS ! i) \<noteq> []" by blast
  from i(2) ne have "detectAgentFrom ua 0 =
      \<lparr>isAgent = True, agentName = fst (KNOWN_AGENTS ! i), confidence = 95, layers = [''ua'']\<rparr>"
    by (simp add: detectAgentFrom_def PATTERN_def AGENT_THRESHOLD_def SERVER_UA_def)
  moreover from detectAgentUA_loop_uaLoop [OF ex, of "[]" "[]"] i(2)
  have "detectAgentUA ua = \<lparr>isAgent1 = True, agentName1 = fst (KNOWN_AGENTS ! i), confidence1 = 95\<rparr>"
    by (simp add: detectAgentUA_def)
  ultimately show ?thesis by (simp add: toAgentResult_def)
next
  case False
  then have "\<forall>e\<in>set KNOWN_AGENTS. \<not> regexp_test (snd e) ua"
    by (simp add: signatureMatches_iff)
  then have "detectAgentUA ua = \<lparr>isAgent1 = False, agentName1 = [], confidence1 = 0\<rparr>"
    by (simp add: detectAgentUA_def detectAgentUA_loop_no_match)
  moreover from False have "detectAgentFrom ua 0 =
      \<lparr>isAgent = False, agentName = [], confidence = 0, layers = []\<rparr>"
    by (simp add: detectAgentFrom_no_match_low)
  ultimately show ?thesis by (simp add: toAgentResult_def)
qed

lemma analyzePatterns_cookie:
  assumes "falsy (headers_get r ''cookie'')" "v \<noteq> []"
  shows "analyzePatterns r = analyzePatterns (withHeader r ''cookie'' v) + 10"
  using assms by (simp add: analyzePatterns_def headers_get_def withHeader_def Let_def)

lemma analyzePatterns_accept:
  "analyzePatterns r - analyzePatterns (withHeader r ''accept'' ''text/html'') \<in> {0, 10}"
  by (simp add: analyzePatterns_def headers_get_def withHeader_def Let_def)

lemma analyzePatterns_requestB_shape:
  assumes "falsy (headers_get r ''referer'')" "falsy (headers_get r ''cookie'')"
    "falsy (headers_get r ''accept-language'')" "headers_get r ''accept'' = Some ''*/*''"
    "falsy (headers_get r ''sec-fetch-mode'')" "falsy (headers_get r ''sec-fetch-site'')"
  shows "analyzePatterns r = 60"
  using assms by (simp add: analyzePatterns_def Let_def)

subsection \<open>The example requests, evaluated\<close>

lemma requestA_result:
  "detectAgent requestA =
     \<lparr>isAgent = True, agentName = ''GPTBot'', confidence = 100, layers = [''ua'', ''pattern'']\<rparr>"
  by code_simp

lemma requestB_result:
  "detectAgent requestB =
     \<lparr>isAgent = True, agentName = ''unknown-pattern'', confidence = 60, layers = [''pattern'']\<rparr>"
  by code_simp

lemma requestC_result:
  "detectAgent requestC = \<lparr>isAgent = False, agentName = [], confidence = 0, layers = []\<rparr>"
  by code_simp

lemma requestD_result:
  "detectAgent requestD =
     \<lparr>isAgent = True, agentName = ''ClaudeBot'', confidence = 95, layers = [''ua'']\<rparr>"
  by code_simp

lemma requestTwo_result:
  "detectAgent requestTwo =
     \<lparr>isAgent = True, agentName = ''GPTBot'', confidence = 100, layers = [''ua'', ''pattern'']\<rparr>"
  by code_simp

lemma requestA_matches: "signatureMatches (userAgent requestA)"
  by code_simp

lemma requestB_no_match: "\<not> signatureMatches (userAgent requestB)"
  by code_simp

lemma requestC_no_match: "\<not> signatureMatches (userAgent requestC)"
  by code_simp

lemma requestD_matches: "signatureMatches (userAgent requestD)"
  by code_simp

lemma requestTwo_matches: "signatureMatches (userAgent requestTwo)"
  by code_simp

lemma requestTwo_entries:
  "regexp_test (snd (KNOWN_AGENTS ! 0)) (userAgent requestTwo) \<and>
   regexp_test (snd (KNOWN_AGENTS ! 3)) (userAgent requestTwo) \<and>
   fst (KNOWN_AGENTS ! 0) = ''GPTBot'' \<and> fst (KNOWN_AGENTS ! 3) = ''ClaudeBot''"
  by code_simp

lemma example_scores:
  "analyzePatterns requestA = 60" "analyzePatterns requestB = 60"
  "analyzePatterns requestC = 0" "analyzePatterns requestD = 0"
  "analyzePatterns requestTwo = 60"
  by (simp_all add: analyzePatterns_def headers_get_def browserHeaders_def
      requestA_def requestB_def requestC_def requestD_def requestTwo_def)

section \<open>The claims\<close>

text \<open>
  C1. For every request, the decision of the classifier is true exactly when the final
  confidence reaches the decision threshold 50: \<open>isAgent == (confidence >= 50)\<close>. This
  includes the case of no layer, where the confidence is 0 and the decision is false.
\<close>

theorem isAgent_iff_threshold:
  "isAgent (detectAgent r) = (50 \<le> confidence (detectAgent r))
   \<and> isAgent (detectAgent r) = (AGENT_THRESHOLD \<le> confidence (detectAgent r))
   \<and> (layers (detectAgent r) = [] \<longrightarrow> confidence (detectAgent r) = 0 \<and> \<not> isAgent (detectAgent r))"
proof -
  have "layers (detectAgent r) = [] \<longrightarrow> confidence (detectAgent r) = 0"
    by (simp add: detectAgent_def detectAgentFrom_def Let_def split: prod.splits list.splits)
  moreover have "isAgent (detectAgent r) = (50 \<le> confidence (detectAgent r))"
    using analyzePatterns_bounds [of r]
    by (simp add: detectAgent_def detectAgentFrom_confidence detectAgentFrom_isAgent)
  ultimately show ?thesis by (simp add: AGENT_THRESHOLD_def)
qed

theorem isAgent_iff_threshold_witness:
  "layers (detectAgent requestC) = [] \<and> confidence (detectAgent requestC) = 0
   \<and> \<not> isAgent (detectAgent requestC)"
proof -
  have "layers (detectAgent requestC) = []" by (simp add: requestC_result)
  with isAgent_iff_threshold [of requestC] show ?thesis by simp
qed

text \<open>
  C2. For every request, whatever its headers, the confidence of the result lies in the
  closed interval from 0 to 100.
\<close>

theorem confidence_in_range:
  "0 \<le> confidence (detectAgent r) \<and> confidence (detectAgent r) \<le> 100"
  using analyzePatterns_bounds [of r]
  by (simp add: detectAgent_def detectAgentFrom_confidence)

theorem confidence_in_range_witness:
  "confidence (detectAgent requestA) = 100 \<and> 0 \<le> confidence (detectAgent requestA)
   \<and> confidence (detectAgent requestA) \<le> 100"
  using confidence_in_range [of requestA] by (simp add: requestA_result)

text \<open>
  C3 with the weight 15 for a missing cookie header, under which a request with an unknown
  identification string, a wildcard \<open>accept\<close> and no other header would score 65 and
  have confidence 65, does not hold: \<open>analyzePatterns\<close> adds 10 for a missing cookie.
  \<open>requestB\<close> is such a request; setting its cookie lowers the score by 10, not by 15, and
  its score and confidence are 60, not 65.
\<close>

theorem cookie_weight_15_counterexample:
  "headers_get requestB ''referer'' = None \<and> headers_get requestB ''cookie'' = None
   \<and> headers_get requestB ''accept-language'' = None
   \<and> headers_get requestB ''accept'' = Some ''*/*''
   \<and> headers_get requestB ''sec-fetch-mode'' = None
   \<and> headers_get requestB ''sec-fetch-site'' = None
   \<and> \<not> signatureMatches (userAgent requestB)
   \<and> analyzePatterns requestB \<noteq> analyzePatterns (withHeader requestB ''cookie'' ''sid=1'') + 15
   \<and> analyzePatterns requestB \<noteq> 65
   \<and> confidence (detectAgent requestB) \<noteq> 65"
proof -
  have "analyzePatterns (withHeader requestB ''cookie'' ''sid=1'') = 50"
    by (simp add: analyzePatterns_def headers_get_def withHeader_def requestB_def)
  then show ?thesis
    by (simp add: example_scores requestB_result requestB_no_match)
      (simp add: headers_get_def requestB_def)
qed

text \<open>
  C3, amended: a missing (or empty) cookie header adds 10 to the pattern score; a request
  with an unknown identification string, no referer, no cookie, no accept-language, \<open>accept\<close>
  equal to \<open>*/*\<close> and no fetch-mode or fetch-site header has the pattern score
  10 + 10 + 15 + 10 + 10 + 5 = 60 and the confidence 60.
\<close>

theorem cookie_weight_10:
  "(falsy (headers_get r ''cookie'') \<and> v \<noteq> [] \<longrightarrow>
      analyzePatterns r = analyzePatterns (withHeader r ''cookie'' v) + 10)
   \<and> (\<not> signatureMatches (userAgent r)
        \<and> falsy (headers_get r ''referer'') \<and> falsy (headers_get r ''cookie'')
        \<and> falsy (headers_get r ''accept-language'') \<and> headers_get r ''accept'' = Some ''*/*''
        \<and> falsy (headers_get r ''sec-fetch-mode'') \<and> falsy (headers_get r ''sec-fetch-site'')
      \<longrightarrow> analyzePatterns r = 10 + 10 + 15 + 10 + 10 + 5 \<and> analyzePatterns r = 60
          \<and> confidence (detectAgent r) = 60)"
proof (intro conjI impI)
  assume "falsy (headers_get r ''cookie'') \<and> v \<noteq> []"
  then show "analyzePatterns r = analyzePatterns (withHeader r ''cookie'' v) + 10"
    by (simp add: analyzePatterns_cookie)
next
  assume a: "\<not> signatureMatches (userAgent r)
        \<and> falsy (headers_get r ''referer'') \<and> falsy (headers_get r ''cookie'')
        \<and> falsy (headers_get r ''accept-language'') \<and> headers_get r ''accept'' = Some ''*/*''
        \<and> falsy (headers_get r ''sec-fetch-mode'') \<and> falsy (headers_get r ''sec-fetch-site'')"
  then have s: "analyzePatterns r = 60"
    by (simp add: analyzePatterns_requestB_shape)
  then show "analyzePatterns r = 10 + 10 + 15 + 10 + 10 + 5" "analyzePatterns r = 60"
    by simp_all
  from a s show "confidence (detectAgent r) = 60"
    by (simp add: detectAgent_def detectAgentFrom_confidence userAgent_def)
qed

theorem cookie_weight_10_witness:
  "(falsy (headers_get requestB ''cookie'') \<and> ''sid=1'' \<noteq> [])
   \<and> analyzePatterns requestB = analyzePatterns (withHeader requestB ''cookie'' ''sid=1'') + 10
   \<and> (\<not> signatureMatches (userAgent requestB)
        \<and> falsy (headers_get requestB ''referer'') \<and> falsy (headers_get requestB ''cookie'')
        \<and> falsy (headers_get requestB ''accept-language'')
        \<and> headers_get requestB ''accept'' = Some ''*/*''
        \<and> falsy (headers_get requestB ''sec-fetch-mode'')
        \<and> falsy (headers_get requestB ''sec-fetch-site''))
   \<and> analyzePatterns requestB = 60 \<and> confidence (detectAgent requestB) = 60"
proof -
  have h: "falsy (headers_get requestB ''referer'')" "falsy (headers_get requestB ''cookie'')"
    "falsy (headers_get requestB ''accept-language'')"
    "headers_get requestB ''accept'' = Some ''*/*''"
    "falsy (headers_get requestB ''sec-fetch-mode'')"
    "falsy (headers_get requestB ''sec-fetch-site'')"
    by (simp_all add: headers_get_def requestB_def)
  with requestB_no_match cookie_weight_10 [of requestB "''sid=1''"] show ?thesis
    by simp
qed

text \<open>
  C4. Whenever the identification string matches at least one entry of the signature table,
  the agent name of the result is the name of the first matching entry in table order, and
  the signature layer \<open>ua\<close> is in the layer list (it is its first element); when several
  entries match, the earliest one wins.
\<close>

theorem first_match_wins:
  assumes "signatureMatches (userAgent r)"
  shows "\<exists>i<length KNOWN_AGENTS.
           regexp_test (snd (KNOWN_AGENTS ! i)) (userAgent r)
           \<and> (\<forall>j<i. \<not> regexp_test (snd (KNOWN_AGENTS ! j)) (userAgent r))
           \<and> agentName (detectAgent r) = fst (KNOWN_AGENTS ! i)
           \<and> ''ua'' \<in> set (layers (detectAgent r))
           \<and> hd (layers (detectAgent r)) = ''ua''"
proof -
  from detectAgentFrom_match [OF assms, of "analyzePatterns r"]
  obtain i where i: "i < length KNOWN_AGENTS"
    "regexp_test (snd (KNOWN_AGENTS ! i)) (userAgent r)"
    "\<forall>j<i. \<not> regexp_test (snd (KNOWN_AGENTS ! j)) (userAgent r)"
    "detectAgent r =
       (if 40 \<le> analyzePatterns r
        then \<lparr>isAgent = True, agentName = fst (KNOWN_AGENTS ! i),
              confidence = min 100 (max 95 (analyzePatterns r) + 5),
              layers = [''ua'', ''pattern'']\<rparr>
        else \<lparr>isAgent = True, agentName = fst (KNOWN_AGENTS ! i),
              confidence = 95, layers = [''ua'']\<rparr>)"
    unfolding detectAgent_def userAgent_def by blast
  from i(4) have "agentName (detectAgent r) = fst (KNOWN_AGENTS ! i)
      \<and> ''ua'' \<in> set (layers (detectAgent r)) \<and> hd (layers (detectAgent r)) = ''ua''"
    by simp
  with i(1-3) show ?thesis by blast
qed

theorem first_match_wins_witness:
  "signatureMatches (userAgent requestTwo)
   \<and> regexp_test (snd (KNOWN_AGENTS ! 0)) (userAgent requestTwo)
   \<and> regexp_test (snd (KNOWN_AGENTS ! 3)) (userAgent requestTwo)
   \<and> (\<exists>i<length KNOWN_AGENTS.
           regexp_test (snd (KNOWN_AGENTS ! i)) (userAgent requestTwo)
           \<and> (\<forall>j<i. \<not> regexp_test (snd (KNOWN_AGENTS ! j)) (userAgent requestTwo))
           \<and> agentName (detectAgent requestTwo) = fst (KNOWN_AGENTS ! i)
           \<and> ''ua'' \<in> set (layers (detectAgent requestTwo))
           \<and> hd (layers (detectAgent requestTwo)) = ''ua'')
   \<and> agentName (detectAgent requestTwo) = fst (KNOWN_AGENTS ! 0)"
  using first_match_wins [OF requestTwo_matches] requestTwo_matches requestTwo_entries
    requestTwo_result
  by simp

text \<open>
  C5. When the identification string matches no entry of the table and the pattern score is
  below 40, the result has no layer, confidence 0, a false decision and the empty agent
  name: the pattern score is discarded.
\<close>

theorem no_match_low_score:
  assumes "\<not> signatureMatches (userAgent r)" "analyzePatterns r < 40"
  shows "layers (detectAgent r) = [] \<and> confidence (detectAgent r) = 0
         \<and> isAgent (detectAgent r) = False \<and> agentName (detectAgent r) = []"
  using assms
  by (simp add: detectAgent_def userAgent_def detectAgentFrom_no_match_low)

theorem no_match_low_score_witness:
  "\<not> signatureMatches (userAgent requestC) \<and> analyzePatterns requestC < 40
   \<and> layers (detectAgent requestC) = [] \<and> confidence (detectAgent requestC) = 0
   \<and> isAgent (detectAgent requestC) = False \<and> agentName (detectAgent requestC) = []"
proof -
  have h: "analyzePatterns requestC < 40" by (simp add: example_scores)
  from no_match_low_score [OF requestC_no_match h] requestC_no_match h show ?thesis
    by simp
qed

text \<open>
  C6. When the identification string matches no entry of the table and the pattern score is
  at least 40, the layer list is \<open>["pattern"]\<close>, the confidence is the pattern score (one
  layer earns no bonus), the agent name is \<open>unknown-pattern\<close>, and the decision is true
  exactly when the pattern score is at least 50.
\<close>

theorem no_match_high_score:
  assumes "\<not> signatureMatches (userAgent r)" "40 \<le> analyzePatterns r"
  shows "layers (detectAgent r) = [''pattern'']
         \<and> confidence (detectAgent r) = analyzePatterns r
         \<and> agentName (detectAgent r) = ''unknown-pattern''
         \<and> isAgent (detectAgent r) = (50 \<le> analyzePatterns r)"
  using assms analyzePatterns_bounds [of r]
  by (simp add: detectAgent_def userAgent_def detectAgentFrom_no_match_high)

theorem no_match_high_score_witness:
  "\<not> signatureMatches (userAgent requestB) \<and> 40 \<le> analyzePatterns requestB
   \<and> layers (detectAgent requestB) = [''pattern'']
   \<and> confidence (detectAgent requestB) = analyzePatterns requestB
   \<and> agentName (detectAgent requestB) = ''unknown-pattern''
   \<and> isAgent (detectAgent requestB) = (50 \<le> analyzePatterns requestB)"
proof -
  have h: "40 \<le> analyzePatterns requestB" by (simp add: example_scores)
  from no_match_high_score [OF requestB_no_match h] requestB_no_match h show ?thesis
    by simp
qed

text \<open>
  C7. When both layers qualify (the identification string matches an entry of the table and
  the pattern score is at least 40), the confidence is min(100, 95 + 5) = 100 and the
  decision is true.
\<close>

theorem both_layers:
  assumes "signatureMatches (userAgent r)" "40 \<le> analyzePatterns r"
  shows "layers (detectAgent r) = [''ua'', ''pattern'']
         \<and> confidence (detectAgent r) = min 100 (SERVER_UA + EXTRA_LAYER_BONUS)
         \<and> confidence (detectAgent r) = 100 \<and> isAgent (detectAgent r)"
proof -
  from detectAgentFrom_match [OF assms(1), of "analyzePatterns r"] assms(2)
  have "layers (detectAgent r) = [''ua'', ''pattern'']"
    unfolding detectAgent_def userAgent_def by auto
  with assms analyzePatterns_bounds [of r] show ?thesis
    by (simp add: detectAgent_def userAgent_def detectAgentFrom_confidence
        detectAgentFrom_isAgent SERVER_UA_def EXTRA_LAYER_BONUS_def)
qed

theorem both_layers_witness:
  "signatureMatches (userAgent requestA) \<and> 40 \<le> analyzePatterns requestA
   \<and> layers (detectAgent requestA) = [''ua'', ''pattern'']
   \<and> confidence (detectAgent requestA) = 100 \<and> isAgent (detectAgent requestA)"
proof -
  have h: "40 \<le> analyzePatterns requestA" by (simp add: example_scores)
  from both_layers [OF requestA_matches h] requestA_matches h show ?thesis
    by simp
qed

text \<open>
  C8. The pattern score is an integer between 0 and 60. The two \<open>accept\<close> rows never both
  fire: against the same request with \<open>accept\<close> set to \<open>text/html\<close>, where neither row
  fires, the score is higher by 0 or by 10, never by 20. The value 60 is attained, by the
  request without any header.
\<close>

theorem pattern_score_bounds:
  "0 \<le> analyzePatterns r \<and> analyzePatterns r \<le> 60
   \<and> analyzePatterns (withHeader r ''accept'' ''text/html'') + 0 \<le> analyzePatterns r
   \<and> analyzePatterns r - analyzePatterns (withHeader r ''accept'' ''text/html'') \<in> {0, 10}
   \<and> analyzePatterns \<lparr>headers = Map.empty\<rparr> = 60
   \<and> (\<exists>r'. analyzePatterns r' = 60)"
proof -
  have "analyzePatterns \<lparr>headers = Map.empty\<rparr> = 60"
    by (simp add: analyzePatterns_def headers_get_def)
  moreover from this have "\<exists>r'. analyzePatterns r' = 60" by blast
  moreover have "analyzePatterns (withHeader r ''accept'' ''text/html'') + 0 \<le> analyzePatterns r"
    using analyzePatterns_accept [of r] by auto
  ultimately show ?thesis
    using analyzePatterns_bounds [of r] analyzePatterns_accept [of r] by blast
qed

theorem pattern_score_bounds_witness:
  "analyzePatterns (withHeader requestB ''accept'' ''text/html'') = 50
   \<and> analyzePatterns requestB - analyzePatterns (withHeader requestB ''accept'' ''text/html'')
         \<in> {0, 10}
   \<and> 0 \<le> analyzePatterns requestB \<and> analyzePatterns requestB \<le> 60"
proof -
  have "analyzePatterns (withHeader requestB ''accept'' ''text/html'') = 50"
    by (simp add: analyzePatterns_def headers_get_def withHeader_def requestB_def)
  with pattern_score_bounds [of requestB] show ?thesis by blast
qed

text \<open>
  C9. The single-layer detector is the degenerate case of the multi-layer one: for every
  identification string it returns the decision, agent name and confidence that the
  multi-layer detector returns for that identification string with the pattern score
  forced to 0; in particular it agrees with the multi-layer detector on every request
  whose pattern score is 0.
\<close>

theorem single_layer_degenerate:
  "detectAgentUA ua = toAgentResult (detectAgentFrom ua 0)
   \<and> isAgent1 (detectAgentUA ua) = isAgent (detectAgentFrom ua 0)
   \<and> agentName1 (detectAgentUA ua) = agentName (detectAgentFrom ua 0)
   \<and> confidence1 (detectAgentUA ua) = confidence (detectAgentFrom ua 0)
   \<and> (analyzePatterns r = 0 \<longrightarrow> detectAgentUA (userAgent r) = toAgentResult (detectAgent r))"
  by (simp add: detectAgentUA_degenerate detectAgent_def userAgent_def)
    (simp add: toAgentResult_def)

theorem single_layer_degenerate_witness:
  "analyzePatterns requestD = 0
   \<and> detectAgentUA (userAgent requestD) = toAgentResult (detectAgent requestD)
   \<and> detectAgentUA (userAgent requestD)
       = \<lparr>isAgent1 = True, agentName1 = ''ClaudeBot'', confidence1 = 95\<rparr>"
proof -
  have s: "analyzePatterns requestD = 0" by (simp add: example_scores)
  have "analyzePatterns requestD = 0 \<longrightarrow>
        detectAgentUA (userAgent requestD) = toAgentResult (detectAgent requestD)"
    using single_layer_degenerate [of "userAgent requestD" requestD] by (elim conjE)
  with s show ?thesis by (simp add: requestD_result toAgentResult_def)
qed

text \<open>
  C10. For every request the confidence is either 0 or at least 40: no value from 1 to 39
  is ever returned.
\<close>

theorem confidence_gap:
  "confidence (detectAgent r) = 0 \<or> 40 \<le> confidence (detectAgent r)"
  by (simp add: detectAgent_def detectAgentFrom_confidence)

theorem confidence_gap_witness:
  "confidence (detectAgent requestC) = 0 \<and> 40 \<le> confidence (detectAgent requestD)
   \<and> (confidence (detectAgent requestB) = 0 \<or> 40 \<le> confidence (detectAgent requestB))"
  using confidence_gap [of requestB] by (simp add: requestC_result requestD_result)

end
